theory Spec2Isabelle
  imports Complex_Main "HOL-Library.Sublist"
begin

section \<open>JavaScript values used by the match scoring code\<close>

subsection \<open>Numbers\<close>

text \<open>
  A JavaScript number is an IEEE 754 double: either finite or one of \<open>NaN\<close>,
  \<open>Infinity\<close>, \<open>-Infinity\<close>. A finite double is kept as the rational it denotes, and
  every arithmetic operation rounds its exact result to the nearest double (53
  significant bits, a tie going to the even significand). The exponent range is not
  modelled: the operands below are array lengths (below \<open>2^32\<close>), the literals 50, 100,
  20 and 15 and what is computed from them, so no result overflows or is subnormal.
  The non-finite values are kept, so that a division by an empty array's length is
  visible in the result instead of being hidden by HOL's \<open>x / 0 = 0\<close>.
\<close>

text \<open>\<open>up x\<close>: how often \<open>x\<close> is halved until it is below 2.\<close>

function up :: "rat \<Rightarrow> nat" where
  "up x = (if x < 2 then 0 else Suc (up (x / 2)))"
  by pat_completeness auto
termination
proof (relation "measure (\<lambda>x. nat \<lfloor>x\<rfloor>)")
  show "wf (measure (\<lambda>x::rat. nat \<lfloor>x\<rfloor>))" by simp
next
  fix x :: rat
  assume "\<not> x < 2"
  then have "x / 2 \<le> x - 1" by simp
  then have "\<lfloor>x / 2\<rfloor> \<le> \<lfloor>x - 1\<rfloor>" by (rule floor_mono)
  moreover have "1 \<le> \<lfloor>x\<rfloor>" using \<open>\<not> x < 2\<close> by (simp add: le_floor_iff)
  ultimately show "(x / 2, x) \<in> measure (\<lambda>x. nat \<lfloor>x\<rfloor>)" by simp
qed

declare up.simps [simp del]

definition pow2 :: "int \<Rightarrow> rat" where
  "pow2 e = (if 0 \<le> e then 2 ^ nat e else 1 / 2 ^ nat (- e))"

text \<open>The exponent \<open>e\<close> of a positive \<open>x\<close>: \<open>2^e <= x < 2^(e+1)\<close>.\<close>

definition binade :: "rat \<Rightarrow> int" where
  "binade x =
     (if 1 \<le> x then int (up x)
      else (let k = up (1 / x) in if 2 ^ k = 1 / x then - int k else - int k - 1))"

text \<open>The distance between neighbouring doubles around \<open>x\<close>.\<close>

definition ulp :: "rat \<Rightarrow> rat" where
  "ulp x = pow2 (binade \<bar>x\<bar> - 52)"

definition roundHalfEven :: "rat \<Rightarrow> int" where
  "roundHalfEven y =
     (let f = \<lfloor>y\<rfloor>; r = y - of_int f in
      if r < 1 / 2 then f else if 1 / 2 < r then f + 1 else if even f then f else f + 1)"

text \<open>The double nearest to \<open>x\<close>.\<close>

definition binary64 :: "rat \<Rightarrow> rat" where
  "binary64 x = (if x = 0 then 0 else of_int (roundHalfEven (x / ulp x)) * ulp x)"

datatype number = Fin rat | NaN | PosInf | NegInf

text \<open>\<^verbatim>\<open>a.length / b.length\<close>: both operands are array lengths.\<close>

definition length_div :: "nat \<Rightarrow> nat \<Rightarrow> number" where
  "length_div a b =
     (if b = 0 then (if a = 0 then NaN else PosInf)
      else Fin (binary64 (of_nat a / of_nat b)))"

text \<open>\<^verbatim>\<open>x + y\<close>. A sum with a zero operand is the other operand, as IEEE 754 has it.\<close>

fun num_add :: "number \<Rightarrow> number \<Rightarrow> number" where
  "num_add (Fin a) (Fin b) = Fin (if a = 0 then b else if b = 0 then a else binary64 (a + b))"
| "num_add NaN y = NaN"
| "num_add x NaN = NaN"
| "num_add PosInf NegInf = NaN"
| "num_add NegInf PosInf = NaN"
| "num_add PosInf y = PosInf"
| "num_add x PosInf = PosInf"
| "num_add NegInf y = NegInf"
| "num_add x NegInf = NegInf"

definition inf_of_sign :: "rat \<Rightarrow> number" where
  "inf_of_sign s = (if s = 0 then NaN else if 0 < s then PosInf else NegInf)"

text \<open>\<^verbatim>\<open>x * y\<close>.\<close>

fun num_mul :: "number \<Rightarrow> number \<Rightarrow> number" where
  "num_mul (Fin a) (Fin b) = Fin (binary64 (a * b))"
| "num_mul NaN y = NaN"
| "num_mul x NaN = NaN"
| "num_mul PosInf (Fin b) = inf_of_sign b"
| "num_mul (Fin a) PosInf = inf_of_sign a"
| "num_mul NegInf (Fin b) = inf_of_sign (- b)"
| "num_mul (Fin a) NegInf = inf_of_sign (- a)"
| "num_mul PosInf PosInf = PosInf"
| "num_mul NegInf NegInf = PosInf"
| "num_mul PosInf NegInf = NegInf"
| "num_mul NegInf PosInf = NegInf"

fun num_neg :: "number \<Rightarrow> number" where
  "num_neg (Fin a) = Fin (- a)"
| "num_neg NaN = NaN"
| "num_neg PosInf = NegInf"
| "num_neg NegInf = PosInf"

definition num_sub :: "number \<Rightarrow> number \<Rightarrow> number" where
  "num_sub x y = num_add x (num_neg y)"

text \<open>
  \<^verbatim>\<open>Math.round\<close>: the integer nearest to the double, a tie going up, with no rounding
  error of its own; non-finite values are returned.
\<close>

fun Math_round :: "number \<Rightarrow> number" where
  "Math_round (Fin x) = Fin (of_int \<lfloor>x + 1 / 2\<rfloor>)"
| "Math_round x = x"

text \<open>\<^verbatim>\<open>x >= y\<close> on numbers: false as soon as one side is \<open>NaN\<close>.\<close>

fun num_ge :: "number \<Rightarrow> number \<Rightarrow> bool" where
  "num_ge (Fin a) (Fin b) = (b \<le> a)"
| "num_ge NaN y = False"
| "num_ge x NaN = False"
| "num_ge PosInf y = True"
| "num_ge x NegInf = True"
| "num_ge x PosInf = False"
| "num_ge NegInf y = False"

text \<open>A comparator result that puts its second argument first: a number above 0.\<close>

fun num_positive :: "number \<Rightarrow> bool" where
  "num_positive (Fin a) = (0 < a)"
| "num_positive PosInf = True"
| "num_positive x = False"

text \<open>Truthiness of a number: \<open>0\<close> and \<open>NaN\<close> are falsy.\<close>

fun num_truthy :: "number \<Rightarrow> bool" where
  "num_truthy (Fin a) = (a \<noteq> 0)"
| "num_truthy NaN = False"
| "num_truthy x = True"

subsection \<open>Strings\<close>

text \<open>
  Strings are lists of characters. \<^verbatim>\<open>toLowerCase\<close> is modelled on the ASCII letters;
  every other character is left as it is.
\<close>

definition toLowerChar :: "char \<Rightarrow> char" where
  "toLowerChar c =
     (case map_of (zip ''ABCDEFGHIJKLMNOPQRSTUVWXYZ'' ''abcdefghijklmnopqrstuvwxyz'') c of
        Some d \<Rightarrow> d
      | None \<Rightarrow> c)"

definition toLowerCase :: "string \<Rightarrow> string" where
  "toLowerCase s = map toLowerChar s"

text \<open>\<^verbatim>\<open>s.startsWith(t)\<close> and \<^verbatim>\<open>s.includes(t)\<close>: \<open>t\<close> occurs in \<open>s\<close> as a contiguous run.\<close>

fun startsWith :: "string \<Rightarrow> string \<Rightarrow> bool" where
  "startsWith s [] = True"
| "startsWith [] (y # t) = False"
| "startsWith (x # s) (y # t) = (x = y \<and> startsWith s t)"

fun string_includes :: "string \<Rightarrow> string \<Rightarrow> bool" where
  "string_includes [] t = (t = [])"
| "string_includes (x # s) t = (startsWith (x # s) t \<or> string_includes s t)"

text \<open>Truthiness of an optional string: \<^verbatim>\<open>null\<close>, \<^verbatim>\<open>undefined\<close> and \<^verbatim>\<open>""\<close> are falsy.\<close>

fun str_truthy :: "string option \<Rightarrow> bool" where
  "str_truthy None = False"
| "str_truthy (Some s) = (s \<noteq> [])"

text \<open>The decimal form of an array length inside a template literal.\<close>

fun Number_toString :: "nat \<Rightarrow> string" where
  "Number_toString n =
     (if n < 10 then [''0123456789'' ! n]
      else Number_toString (n div 10) @ [''0123456789'' ! (n mod 10)])"

declare Number_toString.simps [simp del]

section \<open>Data model\<close>

text \<open>
  The fields of \<^verbatim>\<open>Job\<close> and \<^verbatim>\<open>JobPreference\<close> (types/index.ts) that the scoring
  code reads. A field the type marks optional, or that the code reads through
  \<^verbatim>\<open>?.\<close> or through a falsy default, is an \<open>option\<close>: \<open>None\<close> is
  \<^verbatim>\<open>null\<close> or \<^verbatim>\<open>undefined\<close>.
\<close>

record job =
  title :: string
  location :: "string option"
  remoteType :: "string option"
  skillsRequired :: "string list"

record jobPreference =
  desiredRoles :: "string list option"
  desiredLocations :: "string list option"
  remotePreference :: "string option"
  minMatchScore :: "int option"

record profile =
  skills :: "string list"

record scoredJob =
  matchScore :: number
  matchReasons :: "string list"

section \<open>Skill matching (shared by every call site)\<close>

text \<open>
  \<^verbatim>\<open>userSkills = skills.map((s) => s.name.toLowerCase())\<close>,
  \<^verbatim>\<open>jobSkills = job.skillsRequired.map((s) => s.toLowerCase())\<close>, and
  \<^verbatim>\<open>matchingSkills = jobSkills.filter((skill) => userSkills.some((userSkill) =>
    userSkill.includes(skill) || skill.includes(userSkill)))\<close>.
\<close>

definition lowerAll :: "string list \<Rightarrow> string list" where
  "lowerAll xs = map toLowerCase xs"

definition skillMatch :: "string \<Rightarrow> string \<Rightarrow> bool" where
  "skillMatch userSkill skill =
     (string_includes userSkill skill \<or> string_includes skill userSkill)"

definition matchingSkills :: "string list \<Rightarrow> string list \<Rightarrow> string list" where
  "matchingSkills userSkills jobSkills =
     filter (\<lambda>skill. list_ex (\<lambda>userSkill. skillMatch userSkill skill) userSkills) jobSkills"

section \<open>The skill-ratio score (job listing, job detail, application, AI match)\<close>

text \<open>
  \<^verbatim>\<open>jobSkills.length > 0 ? Math.round((matchingSkills.length / jobSkills.length) * 100) : 0\<close>,
  written out identically at the four call sites.
\<close>

definition skillRatioScore :: "string list \<Rightarrow> string list \<Rightarrow> number" where
  "skillRatioScore userSkills jobSkills =
     (let matching = matchingSkills userSkills jobSkills in
      if length jobSkills > 0
      then Math_round (num_mul (length_div (length matching) (length jobSkills)) (Fin 100))
      else Fin 0)"

text \<open>Job listing: \<^verbatim>\<open>jobsWithMatchScore\<close>, for one job of the page.\<close>

definition jobsWithMatchScore :: "profile \<Rightarrow> job \<Rightarrow> number" where
  "jobsWithMatchScore userProfile j =
     skillRatioScore (lowerAll (skills userProfile)) (lowerAll (skillsRequired j))"

text \<open>Job detail: \<^verbatim>\<open>matchScore\<close> stays \<^verbatim>\<open>null\<close> without a profile.\<close>

definition detail_matchScore :: "profile option \<Rightarrow> job \<Rightarrow> number option" where
  "detail_matchScore userProfile j =
     (case userProfile of
        None \<Rightarrow> None
      | Some p \<Rightarrow> Some (skillRatioScore (lowerAll (skills p)) (lowerAll (skillsRequired j))))"

text \<open>Application: \<^verbatim>\<open>matchScore\<close> starts at 0 and is computed when a profile exists.\<close>

definition apply_matchScore :: "profile option \<Rightarrow> job \<Rightarrow> number" where
  "apply_matchScore userProfile j =
     (case userProfile of
        None \<Rightarrow> Fin 0
      | Some p \<Rightarrow> skillRatioScore (lowerAll (skills p)) (lowerAll (skillsRequired j)))"

text \<open>
  AI match (routes/ai.ts): \<^verbatim>\<open>skillScore\<close>, then
  \<^verbatim>\<open>finalMatchScore = aiAnalysis?.overallMatchScore || skillScore\<close> and
  \<^verbatim>\<open>isRecommended: finalMatchScore >= 50\<close>. The analysis comes from an external
  service; its \<^verbatim>\<open>overallMatchScore\<close> is an argument (\<open>None\<close> when there is no
  analysis). The handler has the user's job preferences loaded and does not read them.
\<close>

definition skillScore :: "profile \<Rightarrow> job \<Rightarrow> number" where
  "skillScore userProfile j =
     skillRatioScore (lowerAll (skills userProfile)) (lowerAll (skillsRequired j))"

definition finalMatchScore :: "profile \<Rightarrow> job \<Rightarrow> number option \<Rightarrow> number" where
  "finalMatchScore userProfile j overallMatchScore =
     (case overallMatchScore of
        None \<Rightarrow> skillScore userProfile j
      | Some a \<Rightarrow> if num_truthy a then a else skillScore userProfile j)"

definition isRecommended :: "profile \<Rightarrow> jobPreference \<Rightarrow> job \<Rightarrow> number option \<Rightarrow> bool" where
  "isRecommended userProfile prefs j overallMatchScore =
     num_ge (finalMatchScore userProfile j overallMatchScore) (Fin 50)"

section \<open>The four-factor score (personalized recommendations)\<close>

text \<open>
  The handler keeps \<^verbatim>\<open>let score = 0\<close> and \<^verbatim>\<open>const reasons = []\<close> and updates
  both in four blocks, in this order. Each block is a function on the pair.
\<close>

type_synonym acc = "number \<times> string list"

definition skillStep :: "string list \<Rightarrow> string list \<Rightarrow> acc \<Rightarrow> acc" where
  "skillStep jobSkills matching acc =
     (if length jobSkills > 0 then
        (let score = num_add (fst acc)
                       (num_mul (length_div (length matching) (length jobSkills)) (Fin 50))
         in if length matching > 0
            then (score, snd acc @ [Number_toString (length matching) @ '' skill matches''])
            else (score, snd acc))
      else acc)"

definition roleMatches :: "jobPreference \<Rightarrow> job \<Rightarrow> bool" where
  "roleMatches prefs j =
     (case desiredRoles prefs of
        None \<Rightarrow> False
      | Some roles \<Rightarrow>
          list_ex (\<lambda>role. string_includes (toLowerCase (title j)) (toLowerCase role)) roles)"

definition roleStep :: "jobPreference \<Rightarrow> job \<Rightarrow> acc \<Rightarrow> acc" where
  "roleStep prefs j acc =
     (if roleMatches prefs j
      then (num_add (fst acc) (Fin 20), snd acc @ [''Matches desired role''])
      else acc)"

definition locationMatches :: "jobPreference \<Rightarrow> job \<Rightarrow> bool" where
  "locationMatches prefs j =
     (case desiredLocations prefs of
        None \<Rightarrow> False
      | Some locs \<Rightarrow>
          list_ex (\<lambda>loc. case location j of
                           None \<Rightarrow> False
                         | Some l \<Rightarrow> string_includes (toLowerCase l) (toLowerCase loc)) locs)"

definition locationStep :: "jobPreference \<Rightarrow> job \<Rightarrow> acc \<Rightarrow> acc" where
  "locationStep prefs j acc =
     (if locationMatches prefs j
      then (num_add (fst acc) (Fin 15), snd acc @ [''Preferred location''])
      else acc)"

definition remoteMatches :: "jobPreference \<Rightarrow> job \<Rightarrow> bool" where
  "remoteMatches prefs j =
     (str_truthy (remotePreference prefs) \<and> remoteType j = remotePreference prefs)"

definition remoteStep :: "jobPreference \<Rightarrow> job \<Rightarrow> acc \<Rightarrow> acc" where
  "remoteStep prefs j acc =
     (if remoteMatches prefs j
      then (num_add (fst acc) (Fin 15), snd acc @ [''Matches work preference''])
      else acc)"

text \<open>
  The body of \<^verbatim>\<open>jobs.map((job) => ...)\<close>, for one job. The result keeps the two
  computed fields; the job's own fields, copied by the spread, are left out.
\<close>

definition jobsWithScores :: "profile \<Rightarrow> jobPreference \<Rightarrow> job \<Rightarrow> scoredJob" where
  "jobsWithScores userProfile prefs j =
     (let userSkills = lowerAll (skills userProfile);
          jobSkills = lowerAll (skillsRequired j);
          matching = matchingSkills userSkills jobSkills;
          acc = remoteStep prefs j
                  (locationStep prefs j
                    (roleStep prefs j
                      (skillStep jobSkills matching (Fin 0, []))))
      in \<lparr>matchScore = Math_round (fst acc), matchReasons = snd acc\<rparr>)"

text \<open>
  \<^verbatim>\<open>const minMatchScore = prefs.minMatchScore || 50\<close>, then
  \<^verbatim>\<open>filteredJobs = jobsWithScores.filter((job) => job.matchScore >= minMatchScore)
    .sort((a, b) => b.matchScore - a.matchScore).slice(0, limit)\<close>.
  The sort is stable: an element moves behind another one only when the comparator
  says so with a positive result.
\<close>

definition minMatchScore_or_50 :: "jobPreference \<Rightarrow> int" where
  "minMatchScore_or_50 prefs =
     (case minMatchScore prefs of
        None \<Rightarrow> 50
      | Some n \<Rightarrow> if n \<noteq> 0 then n else 50)"

definition passesFilter :: "jobPreference \<Rightarrow> scoredJob \<Rightarrow> bool" where
  "passesFilter prefs sj = num_ge (matchScore sj) (Fin (of_int (minMatchScore_or_50 prefs)))"

definition byScoreDesc :: "scoredJob \<Rightarrow> scoredJob \<Rightarrow> number" where
  "byScoreDesc a b = num_sub (matchScore b) (matchScore a)"

fun insertByScore :: "scoredJob \<Rightarrow> scoredJob list \<Rightarrow> scoredJob list" where
  "insertByScore a [] = [a]"
| "insertByScore a (b # bs) =
     (if num_positive (byScoreDesc a b) then b # insertByScore a bs else a # b # bs)"

definition sortByScore :: "scoredJob list \<Rightarrow> scoredJob list" where
  "sortByScore xs = foldr insertByScore xs []"

definition filteredJobs ::
  "profile \<Rightarrow> jobPreference \<Rightarrow> nat \<Rightarrow> job list \<Rightarrow> scoredJob list" where
  "filteredJobs userProfile prefs limit jobs =
     take limit
       (sortByScore (filter (passesFilter prefs) (map (jobsWithScores userProfile prefs) jobs)))"

section \<open>The specification's wording of the skill component\<close>

text \<open>
  \<open>M\<close>: the number of job-required skills for which at least one candidate skill is a
  case-insensitive substring of it, or it of the candidate skill. \<open>sublist\<close> is the
  library's contiguous-sublist relation.
\<close>

definition spec_M :: "string list \<Rightarrow> string list \<Rightarrow> nat" where
  "spec_M candidateSkills requiredSkills =
     length (filter (\<lambda>r. \<exists>c\<in>set candidateSkills.
                           sublist (toLowerCase c) (toLowerCase r) \<or>
                           sublist (toLowerCase r) (toLowerCase c)) requiredSkills)"

text \<open>Skill score = 50 x (M/T) if T > 0, else 0; reason "<M> skill matches" when M > 0.\<close>

definition spec_skill_component :: "profile \<Rightarrow> job \<Rightarrow> acc" where
  "spec_skill_component p j =
     (let T = length (skillsRequired j); M = spec_M (skills p) (skillsRequired j) in
      (if T > 0 then Fin (50 * (of_nat M / of_nat T)) else Fin 0,
       if M > 0 then [Number_toString M @ '' skill matches''] else []))"

text \<open>
  The same component as the handler computes it: the quotient and the product are each
  rounded to a double.
\<close>

definition double_skill_component :: "profile \<Rightarrow> job \<Rightarrow> acc" where
  "double_skill_component p j =
     (let T = length (skillsRequired j); M = spec_M (skills p) (skillsRequired j) in
      (if T > 0 then Fin (binary64 (binary64 (of_nat M / of_nat T) * 50)) else Fin 0,
       if M > 0 then [Number_toString M @ '' skill matches''] else []))"

section \<open>Example inputs\<close>

definition react_profile :: profile where
  "react_profile = \<lparr>skills = [''react'']\<rparr>"

definition react_graphql_job :: job where
  "react_graphql_job =
     \<lparr>title = ''Backend Engineer'', location = None, remoteType = None,
      skillsRequired = [''React'', ''GraphQL'']\<rparr>"

definition prefs_min :: "int option \<Rightarrow> jobPreference" where
  "prefs_min m =
     \<lparr>desiredRoles = Some [], desiredLocations = Some [], remotePreference = None,
      minMatchScore = m\<rparr>"

definition fullstack_profile :: profile where
  "fullstack_profile = \<lparr>skills = [''javascript'', ''react'', ''node.js'']\<rparr>"

definition fullstack_job :: job where
  "fullstack_job =
     \<lparr>title = ''Full Stack Developer'', location = Some ''Remote'',
      remoteType = Some ''remote'',
      skillsRequired = [''JavaScript'', ''React'', ''Node'']\<rparr>"

definition fullstack_prefs :: jobPreference where
  "fullstack_prefs =
     \<lparr>desiredRoles = Some [''Full Stack''], desiredLocations = Some [''Remote''],
      remotePreference = Some ''remote'', minMatchScore = Some 50\<rparr>"

definition rust_job :: job where
  "rust_job =
     \<lparr>title = ''Systems Engineer'', location = Some ''Berlin'',
      remoteType = Some ''hybrid'',
      skillsRequired = [''JavaScript'', ''React'', ''Node'', ''Rust'']\<rparr>"

definition empty_profile :: profile where
  "empty_profile = \<lparr>skills = []\<rparr>"

definition bare_job :: job where
  "bare_job = \<lparr>title = ''Engineer'', location = None, remoteType = None, skillsRequired = []\<rparr>"

definition go_profile :: profile where
  "go_profile = \<lparr>skills = [''Go'']\<rparr>"

text \<open>A job with 100 required skills, 29 of them matched by \<open>go_profile\<close>.\<close>

definition hundred_skills_job :: job where
  "hundred_skills_job =
     \<lparr>title = ''Platform Engineer'', location = None, remoteType = Some ''remote'',
      skillsRequired = replicate 29 ''Go'' @ replicate 71 ''Rust''\<rparr>"

section \<open>Auxiliary facts\<close>

subsection \<open>Rounding to a double\<close>

lemma roundHalfEven_between:
  "\<lfloor>y\<rfloor> \<le> roundHalfEven y \<and> roundHalfEven y \<le> \<lceil>y\<rceil>"
proof -
  have a: "\<lfloor>y\<rfloor> \<le> \<lceil>y\<rceil>" by (rule floor_le_ceiling)
  have b: "\<lfloor>y\<rfloor> + 1 \<le> \<lceil>y\<rceil>" if "\<not> y - of_int \<lfloor>y\<rfloor> < 1 / 2"
  proof -
    from that have "of_int \<lfloor>y\<rfloor> < y" by simp
    then have "\<lfloor>y\<rfloor> < \<lceil>y\<rceil>" by (simp add: less_ceiling_iff)
    then show ?thesis by simp
  qed
  show ?thesis
  proof (cases "y - of_int \<lfloor>y\<rfloor> < 1 / 2")
    case True
    with a show ?thesis by (simp add: roundHalfEven_def Let_def)
  next
    case False
    from b [OF False] False show ?thesis by (simp add: roundHalfEven_def Let_def)
  qed
qed

lemma roundHalfEven_le: "y \<le> of_int n \<Longrightarrow> roundHalfEven y \<le> n"
proof -
  assume "y \<le> of_int n"
  then have "\<lceil>y\<rceil> \<le> n" by (simp add: ceiling_le_iff)
  with roundHalfEven_between [of y] show ?thesis by simp
qed

lemma roundHalfEven_ge: "of_int n \<le> y \<Longrightarrow> n \<le> roundHalfEven y"
proof -
  assume "of_int n \<le> y"
  then have "n \<le> \<lfloor>y\<rfloor>" by (simp add: le_floor_iff)
  with roundHalfEven_between [of y] show ?thesis by simp
qed

lemma roundHalfEven_error: "\<bar>of_int (roundHalfEven y) - y\<bar> \<le> 1 / 2"
proof -
  have "of_int \<lfloor>y\<rfloor> \<le> y" "y < of_int \<lfloor>y\<rfloor> + 1" by linarith+
  then show ?thesis
    unfolding roundHalfEven_def Let_def by (simp add: abs_if) linarith?
qed

lemma up_le: "x < 2 ^ Suc k \<Longrightarrow> up x \<le> k"
proof (induction k arbitrary: x)
  case 0
  then show ?case by (simp add: up.simps)
next
  case (Suc k)
  show ?case
  proof (cases "x < 2")
    case True
    then show ?thesis by (simp add: up.simps)
  next
    case False
    from Suc.prems have "x / 2 < 2 ^ Suc k" by simp
    then have "up (x / 2) \<le> k" by (rule Suc.IH)
    with False show ?thesis by (simp add: up.simps [of x])
  qed
qed

lemma up_bounds: "1 \<le> x \<Longrightarrow> 2 ^ up x \<le> x \<and> x < 2 ^ Suc (up x)"
proof (induction x rule: up.induct)
  case (1 x)
  show ?case
  proof (cases "x < 2")
    case True
    with "1.prems" show ?thesis by (simp add: up.simps)
  next
    case False
    then have "1 \<le> x / 2" by simp
    with "1.IH" False have "2 ^ up (x / 2) \<le> x / 2 \<and> x / 2 < 2 ^ Suc (up (x / 2))" by blast
    with False show ?thesis by (simp add: up.simps [of x])
  qed
qed

lemma pow2_pos: "0 < pow2 e"
  by (simp add: pow2_def)

lemma pow2_diff: "pow2 (e - int n) = pow2 e / 2 ^ n"
proof -
  consider "int n \<le> e" | "0 \<le> e" "e < int n" | "e < 0" by linarith
  then show ?thesis
  proof cases
    case 1
    then have "nat e = nat (e - int n) + n" by linarith
    then have "(2::rat) ^ nat e = 2 ^ nat (e - int n) * 2 ^ n" by (simp only: power_add)
    with 1 show ?thesis by (simp add: pow2_def)
  next
    case 2
    then have "n = nat (int n - e) + nat e" by linarith
    then have "(2::rat) ^ n = 2 ^ nat (int n - e) * 2 ^ nat e" by (metis power_add)
    with 2 show ?thesis by (simp add: pow2_def)
  next
    case 3
    then have "nat (int n - e) = nat (- e) + n" by linarith
    then have "(2::rat) ^ nat (int n - e) = 2 ^ nat (- e) * 2 ^ n" by (simp only: power_add)
    with 3 show ?thesis by (simp add: pow2_def)
  qed
qed

lemma binade_le: "0 < x \<Longrightarrow> x < 2 ^ Suc k \<Longrightarrow> binade x \<le> int k"
proof (cases "1 \<le> x")
  case True
  assume "x < 2 ^ Suc k"
  then have "up x \<le> k" by (rule up_le)
  with True show ?thesis by (simp add: binade_def)
next
  case False
  then show ?thesis by (simp add: binade_def Let_def)
qed

lemma pow2_binade_le: "0 < x \<Longrightarrow> pow2 (binade x) \<le> x"
proof (cases "1 \<le> x")
  case True
  then show ?thesis using up_bounds [of x] by (simp add: binade_def pow2_def)
next
  case False
  assume pos: "0 < x"
  with False have y: "1 \<le> 1 / x" by simp
  define k where "k = up (1 / x)"
  from up_bounds [OF y] have b: "2 ^ k \<le> 1 / x" "1 / x < 2 ^ Suc k" by (simp_all add: k_def)
  show ?thesis
  proof (cases "2 ^ k = 1 / x")
    case True
    with pos have x: "x = 1 / 2 ^ k" by (simp add: field_simps)
    have "binade x = - int k"
      using False True by (simp add: binade_def Let_def k_def [symmetric])
    moreover have "pow2 (- int k) = 1 / 2 ^ k"
      by (cases "k = 0") (simp_all add: pow2_def)
    ultimately show ?thesis using x by simp
  next
    case neq: False
    from b(2) pos have "1 / 2 ^ Suc k < x"
      by (simp add: field_simps)
    moreover have "binade x = - int k - 1"
      using False neq by (simp add: binade_def Let_def k_def [symmetric])
    moreover have "nat (1 + int k) = Suc k" by simp
    then have "pow2 (- int k - 1) = 1 / 2 ^ Suc k"
      unfolding pow2_def by simp
    ultimately show ?thesis by simp
  qed
qed

lemma ulp_pos: "0 < ulp x"
  by (simp add: ulp_def pow2_pos)

lemma ulp_le: "0 < x \<Longrightarrow> ulp x \<le> x / 2 ^ 52"
proof -
  assume pos: "0 < x"
  then have "pow2 (binade x) \<le> x" by (rule pow2_binade_le)
  then have "pow2 (binade x) / 2 ^ 52 \<le> x / 2 ^ 52" by (simp add: divide_right_mono)
  moreover have "ulp x = pow2 (binade x) / 2 ^ 52"
    using pow2_diff [of "binade x" 52] pos by (simp add: ulp_def)
  ultimately show ?thesis by simp
qed

lemma ulp_reciprocal: "0 < x \<Longrightarrow> x < 2 ^ 53 \<Longrightarrow> \<exists>m::nat. ulp x = 1 / 2 ^ m"
proof -
  assume pos: "0 < x" and "x < 2 ^ 53"
  then have "x < 2 ^ Suc 52" by simp
  with pos have "binade x \<le> int 52" by (rule binade_le)
  then have le: "binade x - 52 \<le> 0" by simp
  show ?thesis
  proof (cases "binade x - 52 = 0")
    case True
    with pos have "ulp x = 1 / 2 ^ 0" by (simp add: ulp_def pow2_def)
    then show ?thesis by blast
  next
    case False
    with le have "\<not> 0 \<le> binade x - 52" by simp
    with pos have "ulp x = 1 / 2 ^ nat (- (binade x - 52))" by (simp add: ulp_def pow2_def)
    then show ?thesis by blast
  qed
qed

lemma binary64_error: "\<bar>binary64 x - x\<bar> \<le> ulp x / 2"
proof (cases "x = 0")
  case True
  then show ?thesis using ulp_pos [of 0] by (simp add: binary64_def)
next
  case False
  define u where "u = ulp x"
  have u: "0 < u" by (simp add: u_def ulp_pos)
  define r where "r = of_int (roundHalfEven (x / u)) - x / u"
  have "\<bar>r\<bar> \<le> 1 / 2" unfolding r_def by (rule roundHalfEven_error)
  with u have "\<bar>r\<bar> * u \<le> 1 / 2 * u" by (simp add: mult_right_mono)
  moreover have "\<bar>r\<bar> * u = \<bar>r * u\<bar>" using u by (simp add: abs_mult)
  moreover have "r * u = of_int (roundHalfEven (x / u)) * u - x"
    using u by (simp add: r_def left_diff_distrib)
  ultimately have "\<bar>of_int (roundHalfEven (x / u)) * u - x\<bar> \<le> u / 2" by simp
  with False show ?thesis by (simp add: binary64_def u_def)
qed

lemma binary64_bounds:
  assumes "0 \<le> x" "x \<le> of_nat n" "n < 2 ^ 53"
  shows "0 \<le> binary64 x \<and> binary64 x \<le> of_nat n"
proof (cases "x = 0")
  case True
  then show ?thesis by (simp add: binary64_def)
next
  case False
  with assms have pos: "0 < x" by simp
  from assms(3) have "(of_nat n :: rat) < of_nat (2 ^ 53)" by (simp only: of_nat_less_iff)
  then have "(of_nat n :: rat) < 2 ^ 53" by simp
  with assms(2) have "x < 2 ^ 53" by simp
  with pos obtain m :: nat where m: "ulp x = 1 / 2 ^ m" using ulp_reciprocal by blast
  have q: "x / ulp x = x * 2 ^ m" by (simp add: m)
  have "of_int 0 \<le> x * 2 ^ m" using pos by simp
  then have lo: "0 \<le> roundHalfEven (x * 2 ^ m)" by (rule roundHalfEven_ge)
  have "x * 2 ^ m \<le> of_nat n * 2 ^ m" using assms(2) by simp
  then have "x * 2 ^ m \<le> of_int (int n * 2 ^ m)" by simp
  then have hi: "roundHalfEven (x * 2 ^ m) \<le> int n * 2 ^ m" by (rule roundHalfEven_le)
  have v: "binary64 x = of_int (roundHalfEven (x * 2 ^ m)) / 2 ^ m"
    using False by (simp add: binary64_def q m)
  from lo have "0 \<le> binary64 x" by (simp add: v)
  moreover from hi have "(of_int (roundHalfEven (x * 2 ^ m)) :: rat) \<le> of_int (int n * 2 ^ m)"
    by (simp only: of_int_le_iff)
  then have "(of_int (roundHalfEven (x * 2 ^ m)) :: rat) \<le> of_nat n * 2 ^ m" by simp
  then have "binary64 x \<le> of_nat n" by (simp add: v divide_le_eq)
  ultimately show ?thesis by simp
qed

lemma binary64_rel_error: "0 \<le> x \<Longrightarrow> \<bar>binary64 x - x\<bar> \<le> x / 2 ^ 53"
proof (cases "x = 0")
  case True
  then show ?thesis by (simp add: binary64_def)
next
  case False
  assume "0 \<le> x"
  with False have "0 < x" by simp
  then have "ulp x \<le> x / 2 ^ 52" by (rule ulp_le)
  then have "ulp x / 2 \<le> x / 2 ^ 52 / 2" by (simp add: divide_right_mono)
  with binary64_error [of x] show ?thesis by simp
qed

subsection \<open>Strings and skill matching\<close>

lemma startsWith_prefix: "startsWith s t \<longleftrightarrow> prefix t s"
  by (induction s t rule: startsWith.induct) auto

lemma string_includes_sublist: "string_includes s t \<longleftrightarrow> sublist t s"
  by (induction s) (auto simp: startsWith_prefix sublist_Cons_right)

lemma length_matchingSkills_le: "length (matchingSkills u js) \<le> length js"
  by (simp add: matchingSkills_def)

lemma matchingSkills_lower:
  "matchingSkills (lowerAll names) (lowerAll req) =
     map toLowerCase (filter (\<lambda>r. \<exists>c\<in>set names.
                           sublist (toLowerCase c) (toLowerCase r) \<or>
                           sublist (toLowerCase r) (toLowerCase c)) req)"
  unfolding matchingSkills_def lowerAll_def filter_map
  by (rule arg_cong [where f = "map toLowerCase"], rule filter_cong)
     (auto simp: list_ex_iff skillMatch_def string_includes_sublist)

lemma length_matchingSkills_spec:
  "length (matchingSkills (lowerAll names) (lowerAll req)) = spec_M names req"
  by (simp add: matchingSkills_lower spec_M_def)

lemma length_lowerAll: "length (lowerAll xs) = length xs"
  by (simp add: lowerAll_def)

lemma lowerAll_eq_Nil: "lowerAll xs = [] \<longleftrightarrow> xs = []"
  by (simp add: lowerAll_def)

lemma spec_M_le: "spec_M names req \<le> length req"
  by (simp add: spec_M_def)

lemma matchingSkills_no_userSkills: "matchingSkills [] js = []"
  by (simp add: matchingSkills_def)

lemma matchingSkills_no_jobSkills: "matchingSkills u [] = []"
  by (simp add: matchingSkills_def)

subsection \<open>The score\<close>

lemma binary64_0: "binary64 0 = 0"
  by (simp add: binary64_def)

lemma num_add_zero_right: "num_add a (Fin 0) = a"
  by (cases a) simp_all

lemma num_add_bounds:
  assumes "0 \<le> a" "a \<le> of_nat A" "0 \<le> b" "b \<le> of_nat B" "A + B < 2 ^ 53"
  shows "\<exists>c. num_add (Fin a) (Fin b) = Fin c \<and> 0 \<le> c \<and> c \<le> of_nat (A + B)"
proof -
  from assms have "0 \<le> a + b" "a + b \<le> of_nat (A + B)" by simp_all
  from binary64_bounds [OF this assms(5)]
  have "0 \<le> binary64 (a + b) \<and> binary64 (a + b) \<le> of_nat (A + B)" .
  moreover from assms have "b \<le> of_nat (A + B)" "a \<le> of_nat (A + B)" by simp_all
  ultimately show ?thesis using assms(1,3) by simp
qed

lemma ratio_bounds:
  assumes "m \<le> t" "0 < t"
  shows "0 \<le> binary64 (of_nat m / of_nat t) \<and> binary64 (of_nat m / of_nat t) \<le> 1"
proof -
  have "(of_nat m :: rat) \<le> of_nat t" using assms(1) by (simp only: of_nat_le_iff)
  with assms(2) have "(0::rat) \<le> of_nat m / of_nat t" "(of_nat m :: rat) / of_nat t \<le> of_nat 1"
    by (simp_all add: divide_le_eq_1)
  from binary64_bounds [OF this] show ?thesis by simp
qed

lemma scaled_ratio_bounds:
  assumes "m \<le> t" "0 < t" "k < 2 ^ 53"
  shows "0 \<le> binary64 (binary64 (of_nat m / of_nat t) * of_nat k)
         \<and> binary64 (binary64 (of_nat m / of_nat t) * of_nat k) \<le> of_nat k"
proof -
  define q where "q = binary64 (of_nat m / of_nat t)"
  from ratio_bounds [OF assms(1,2)] have q: "0 \<le> q" "q \<le> 1" by (simp_all add: q_def)
  then have "0 \<le> q * of_nat k" "q * of_nat k \<le> of_nat k"
    by (simp_all add: mult_left_le_one_le)
  from binary64_bounds [OF this assms(3)] show ?thesis by (simp add: q_def)
qed

lemma skillStep_double:
  "skillStep (lowerAll (skillsRequired j))
     (matchingSkills (lowerAll (skills p)) (lowerAll (skillsRequired j))) (Fin 0, [])
   = double_skill_component p j"
proof (cases "skillsRequired j = []")
  case True
  then show ?thesis
    by (simp add: skillStep_def double_skill_component_def length_lowerAll spec_M_def)
next
  case False
  then show ?thesis
    by (simp add: skillStep_def double_skill_component_def length_matchingSkills_spec
        length_div_def Let_def length_lowerAll)
qed

lemma skill_component_bounds:
  "\<exists>s. fst (double_skill_component p j) = Fin s \<and> 0 \<le> s \<and> s \<le> 50"
proof (cases "skillsRequired j = []")
  case True
  then show ?thesis by (simp add: double_skill_component_def Let_def)
next
  case False
  then have T: "0 < length (skillsRequired j)" by simp
  have "(50::nat) < 2 ^ 53" by simp
  from scaled_ratio_bounds [OF spec_M_le T this, of "skills p"] T
  show ?thesis
    by (simp add: double_skill_component_def Let_def)
qed

lemma step_bounds:
  assumes "0 \<le> x" "x \<le> of_nat N" "N \<le> 100"
  shows "\<exists>y. fst (roleStep prefs j (Fin x, rs)) = Fin y \<and> 0 \<le> y \<and> y \<le> of_nat (N + 20)"
    and "\<exists>y. fst (locationStep prefs j (Fin x, rs)) = Fin y \<and> 0 \<le> y \<and> y \<le> of_nat (N + 15)"
    and "\<exists>y. fst (remoteStep prefs j (Fin x, rs)) = Fin y \<and> 0 \<le> y \<and> y \<le> of_nat (N + 15)"
proof -
  have k: "(0::rat) \<le> 20" "(20::rat) \<le> of_nat 20" "(0::rat) \<le> 15" "(15::rat) \<le> of_nat 15"
    by simp_all
  from assms(3) have n: "N + 20 < 2 ^ 53" "N + 15 < 2 ^ 53" by simp_all
  from assms(2) have le: "x \<le> of_nat (N + 20)" "x \<le> of_nat (N + 15)" by simp_all
  from num_add_bounds [OF assms(1,2) k(1,2) n(1)] le(1) assms(1)
  show "\<exists>y. fst (roleStep prefs j (Fin x, rs)) = Fin y \<and> 0 \<le> y \<and> y \<le> of_nat (N + 20)"
    unfolding roleStep_def by (cases "roleMatches prefs j") auto
  from num_add_bounds [OF assms(1,2) k(3,4) n(2)] le(2) assms(1)
  show "\<exists>y. fst (locationStep prefs j (Fin x, rs)) = Fin y \<and> 0 \<le> y \<and> y \<le> of_nat (N + 15)"
    unfolding locationStep_def by (cases "locationMatches prefs j") auto
  from num_add_bounds [OF assms(1,2) k(3,4) n(2)] le(2) assms(1)
  show "\<exists>y. fst (remoteStep prefs j (Fin x, rs)) = Fin y \<and> 0 \<le> y \<and> y \<le> of_nat (N + 15)"
    unfolding remoteStep_def by (cases "remoteMatches prefs j") auto
qed

lemma pre_remote_bounds:
  "\<exists>x rs. locationStep prefs j (roleStep prefs j (double_skill_component p j)) = (Fin x, rs)
       \<and> 0 \<le> x \<and> x \<le> 85"
proof -
  obtain s rs where s: "double_skill_component p j = (Fin s, rs)" "0 \<le> s" "s \<le> of_nat 50"
    using skill_component_bounds [of p j] by (cases "double_skill_component p j") auto
  obtain y rs' where y: "roleStep prefs j (Fin s, rs) = (Fin y, rs')" "0 \<le> y" "y \<le> of_nat 70"
    using step_bounds(1) [OF s(2,3), of prefs j rs]
    by (cases "roleStep prefs j (Fin s, rs)") auto
  obtain z rs'' where z: "locationStep prefs j (Fin y, rs') = (Fin z, rs'')" "0 \<le> z"
    "z \<le> of_nat 85"
    using step_bounds(2) [OF y(2,3), of prefs j rs']
    by (cases "locationStep prefs j (Fin y, rs')") auto
  show ?thesis
    using z by (simp add: s(1) y(1))
qed

lemma pre_round_bounds:
  "\<exists>x. fst (remoteStep prefs j (locationStep prefs j (roleStep prefs j
              (double_skill_component p j)))) = Fin x
       \<and> 0 \<le> x \<and> x \<le> 100"
proof -
  obtain z rs where z:
    "locationStep prefs j (roleStep prefs j (double_skill_component p j)) = (Fin z, rs)"
    "0 \<le> z" "z \<le> of_nat 85"
    using pre_remote_bounds [of prefs j p] by auto
  from step_bounds(3) [OF z(2,3), of prefs j rs] show ?thesis
    by (simp add: z(1))
qed

lemma Math_round_bounds:
  "0 \<le> x \<Longrightarrow> x \<le> 100 \<Longrightarrow>
   \<exists>n. Math_round (Fin x) = Fin (of_int n) \<and> 0 \<le> n \<and> n \<le> 100"
  by (simp add: le_floor_iff floor_le_iff)

lemma jobsWithScores_unfold:
  "jobsWithScores p prefs j =
     \<lparr>matchScore = Math_round (fst (remoteStep prefs j (locationStep prefs j
                        (roleStep prefs j (double_skill_component p j))))),
      matchReasons = snd (remoteStep prefs j (locationStep prefs j
                        (roleStep prefs j (double_skill_component p j))))\<rparr>"
  by (simp add: jobsWithScores_def Let_def skillStep_double)

lemma skillRatioScore_bounds:
  "\<exists>n. skillRatioScore u js = Fin (of_int n) \<and> 0 \<le> n \<and> n \<le> 100"
proof (cases "js = []")
  case True
  then show ?thesis by (simp add: skillRatioScore_def)
next
  case False
  then have T: "0 < length js" by simp
  define s where
    "s = binary64 (binary64 (of_nat (length (matchingSkills u js)) / of_nat (length js)) * 100)"
  have "(100::nat) < 2 ^ 53" by simp
  from scaled_ratio_bounds [OF length_matchingSkills_le T this, of u]
  have b: "0 \<le> s" "s \<le> 100" by (simp_all add: s_def)
  from False have "skillRatioScore u js = Math_round (Fin s)"
    by (simp add: skillRatioScore_def Let_def length_div_def s_def)
  with Math_round_bounds [OF b] show ?thesis by simp
qed



lemma set_insertByScore: "set (insertByScore a bs) = insert a (set bs)"
  by (induction bs) auto

lemma set_sortByScore: "set (sortByScore xs) = set xs"
  by (induction xs) (simp_all add: sortByScore_def set_insertByScore)

lemma filteredJobs_subset:
  "set (filteredJobs p prefs limit jobs) \<subseteq> {sj. passesFilter prefs sj}"
proof -
  have "set (filteredJobs p prefs limit jobs)
          \<subseteq> set (sortByScore (filter (passesFilter prefs) (map (jobsWithScores p prefs) jobs)))"
    unfolding filteredJobs_def by (rule set_take_subset)
  then show ?thesis
    by (auto simp: set_sortByScore)
qed

text \<open>The reasons come in the order of the four blocks: skills, role, location, remote.\<close>

lemma matchReasons_order:
  "matchReasons (jobsWithScores p prefs j)
     = (if 0 < length (matchingSkills (lowerAll (skills p)) (lowerAll (skillsRequired j)))
        then [Number_toString
                (length (matchingSkills (lowerAll (skills p)) (lowerAll (skillsRequired j))))
              @ '' skill matches'']
        else [])
       @ (if roleMatches prefs j then [''Matches desired role''] else [])
       @ (if locationMatches prefs j then [''Preferred location''] else [])
       @ (if remoteMatches prefs j then [''Matches work preference''] else [])"
proof (cases "skillsRequired j = []")
  case True
  then show ?thesis
    by (simp add: jobsWithScores_def Let_def skillStep_def roleStep_def locationStep_def
        remoteStep_def lowerAll_def matchingSkills_no_jobSkills)
next
  case False
  then show ?thesis
    by (simp add: jobsWithScores_def Let_def skillStep_def roleStep_def locationStep_def
        remoteStep_def lowerAll_eq_Nil)
qed

section \<open>The claims\<close>

text \<open>
  C1 states that the skill component is \<open>50 * (M / T)\<close>. The handler computes
  \<^verbatim>\<open>(matchingSkills.length / jobSkills.length) * 50\<close> in doubles: with 29 matching
  skills out of 100 the component is 14.499999999999998, below \<open>29 / 2\<close>, and the score
  returned is 14, where rounding \<open>50 * (29 / 100)\<close> gives 15.
\<close>

theorem skill_component_exact_counterexample:
  "length (skillsRequired hundred_skills_job) = 100
   \<and> spec_M (skills go_profile) (skillsRequired hundred_skills_job) = 29
   \<and> fst (spec_skill_component go_profile hundred_skills_job) = Fin (29 / 2)
   \<and> fst (skillStep (lowerAll (skillsRequired hundred_skills_job))
          (matchingSkills (lowerAll (skills go_profile))
             (lowerAll (skillsRequired hundred_skills_job))) (Fin 0, []))
       = Fin (8162774324609023 / 562949953421312)
   \<and> (8162774324609023 / 562949953421312 :: rat) < 29 / 2
   \<and> matchScore (jobsWithScores go_profile (prefs_min None) hundred_skills_job) = Fin 14
   \<and> Math_round (Fin (29 / 2)) = Fin 15"
  by code_simp

text \<open>
  C1 (amended). In the recommendations path the skill block, run on the initial
  \<open>score = 0\<close> and \<open>reasons = []\<close>, leaves as score the double that \<open>(M / T) * 50\<close>
  evaluates to when \<open>T > 0\<close> (the quotient rounded to a double, its product with 50
  rounded again) and \<open>0\<close> when \<open>T = 0\<close>, where \<open>T\<close> is the number of job-required
  skills and \<open>M\<close> the number of them that match some candidate skill case-insensitively
  as a substring in either direction. That score lies between 0 and 50 and differs from
  \<open>50 * (M / T)\<close> by at most \<open>2^-46\<close>. The block appends the reason \<open><M> skill matches\<close>
  exactly when \<open>M > 0\<close>, and the score the handler returns is the rounded result of the
  three later blocks run on that pair.
\<close>

theorem skill_component_double:
  "fst (skillStep (lowerAll (skillsRequired j))
          (matchingSkills (lowerAll (skills p)) (lowerAll (skillsRequired j))) (Fin 0, []))
     = (if 0 < length (skillsRequired j)
        then Fin (binary64 (binary64 (of_nat (spec_M (skills p) (skillsRequired j))
                                        / of_nat (length (skillsRequired j))) * 50))
        else Fin 0)
   \<and> snd (skillStep (lowerAll (skillsRequired j))
          (matchingSkills (lowerAll (skills p)) (lowerAll (skillsRequired j))) (Fin 0, []))
     = (if 0 < spec_M (skills p) (skillsRequired j)
        then [Number_toString (spec_M (skills p) (skillsRequired j)) @ '' skill matches'']
        else [])
   \<and> (\<exists>s. fst (skillStep (lowerAll (skillsRequired j))
          (matchingSkills (lowerAll (skills p)) (lowerAll (skillsRequired j))) (Fin 0, []))
            = Fin s
          \<and> 0 \<le> s \<and> s \<le> 50
          \<and> (0 < length (skillsRequired j) \<longrightarrow>
               \<bar>s - 50 * (of_nat (spec_M (skills p) (skillsRequired j))
                            / of_nat (length (skillsRequired j)))\<bar> \<le> 1 / 2 ^ 46))
   \<and> jobsWithScores p prefs j =
       \<lparr>matchScore = Math_round (fst (remoteStep prefs j (locationStep prefs j
                          (roleStep prefs j (double_skill_component p j))))),
        matchReasons = snd (remoteStep prefs j (locationStep prefs j
                          (roleStep prefs j (double_skill_component p j))))\<rparr>"
proof (intro conjI)
  show "jobsWithScores p prefs j =
       \<lparr>matchScore = Math_round (fst (remoteStep prefs j (locationStep prefs j
                          (roleStep prefs j (double_skill_component p j))))),
        matchReasons = snd (remoteStep prefs j (locationStep prefs j
                          (roleStep prefs j (double_skill_component p j))))\<rparr>"
    by (rule jobsWithScores_unfold)
next
  show "\<exists>s. fst (skillStep (lowerAll (skillsRequired j))
          (matchingSkills (lowerAll (skills p)) (lowerAll (skillsRequired j))) (Fin 0, []))
            = Fin s
          \<and> 0 \<le> s \<and> s \<le> 50
          \<and> (0 < length (skillsRequired j) \<longrightarrow>
               \<bar>s - 50 * (of_nat (spec_M (skills p) (skillsRequired j))
                            / of_nat (length (skillsRequired j)))\<bar> \<le> 1 / 2 ^ 46)"
  proof (cases "skillsRequired j = []")
    case True
    then show ?thesis
      by (simp add: skillStep_def lowerAll_def)
  next
    case False
    then have T: "0 < length (skillsRequired j)" by simp
    define r :: rat where
      "r = of_nat (spec_M (skills p) (skillsRequired j)) / of_nat (length (skillsRequired j))"
    define q where "q = binary64 r"
    define s where "s = binary64 (q * 50)"
    have "(of_nat (spec_M (skills p) (skillsRequired j)) :: rat)
            \<le> of_nat (length (skillsRequired j))"
      using spec_M_le by (simp only: of_nat_le_iff)
    with T have r: "0 \<le> r" "r \<le> 1" by (simp_all add: r_def divide_le_eq_1)
    from ratio_bounds [OF spec_M_le T, of "skills p"] have q: "0 \<le> q" "q \<le> 1"
      by (simp_all add: q_def r_def)
    have "(50::nat) < 2 ^ 53" by simp
    from scaled_ratio_bounds [OF spec_M_le T this, of "skills p"] have s: "0 \<le> s" "s \<le> 50"
      by (simp_all add: s_def q_def r_def)
    from r have "\<bar>q - r\<bar> \<le> r / 2 ^ 53" unfolding q_def by (intro binary64_rel_error)
    also from r have "\<dots> \<le> 1 / 2 ^ 53" by (simp add: divide_right_mono)
    finally have "50 * \<bar>q - r\<bar> \<le> 50 * (1 / 2 ^ 53)"
      by (rule mult_left_mono) simp
    moreover have "50 * q - 50 * r = 50 * (q - r)" by (simp only: right_diff_distrib)
    then have "\<bar>50 * q - 50 * r\<bar> = 50 * \<bar>q - r\<bar>" by (simp only: abs_mult)
    ultimately have e1: "\<bar>50 * q - 50 * r\<bar> \<le> 50 / 2 ^ 53" by simp
    from q have "0 \<le> q * 50" by simp
    then have "\<bar>s - q * 50\<bar> \<le> q * 50 / 2 ^ 53" unfolding s_def by (rule binary64_rel_error)
    also from q have "\<dots> \<le> 50 / 2 ^ 53" by (simp add: divide_right_mono)
    finally have e2: "\<bar>s - 50 * q\<bar> \<le> 50 / 2 ^ 53" by (simp add: mult.commute)
    have "\<bar>s - 50 * r\<bar> \<le> \<bar>s - 50 * q\<bar> + \<bar>50 * q - 50 * r\<bar>" by simp
    with e1 e2 have "\<bar>s - 50 * r\<bar> \<le> 100 / 2 ^ 53" by simp
    also have "(100::rat) / 2 ^ 53 \<le> 1 / 2 ^ 46" by simp
    finally have e: "\<bar>s - 50 * r\<bar> \<le> 1 / 2 ^ 46" .
    from False have "fst (double_skill_component p j) = Fin s"
      by (simp add: double_skill_component_def Let_def s_def q_def r_def)
    with s e T show ?thesis
      by (simp add: skillStep_double r_def)
  qed
qed (simp_all add: skillStep_double double_skill_component_def Let_def)

text \<open>The partial match of one out of two required skills: 25 points and one reason.\<close>

theorem skill_component_double_witness:
  "0 < length (skillsRequired react_graphql_job)
   \<and> spec_M (skills react_profile) (skillsRequired react_graphql_job) = 1
   \<and> skillStep (lowerAll (skillsRequired react_graphql_job))
        (matchingSkills (lowerAll (skills react_profile))
           (lowerAll (skillsRequired react_graphql_job))) (Fin 0, [])
       = (Fin 25, [''1 skill matches''])"
proof -
  have M: "spec_M (skills react_profile) (skillsRequired react_graphql_job) = 1"
    by code_simp
  have T: "length (skillsRequired react_graphql_job) = 2"
    by (simp add: react_graphql_job_def)
  have N: "Number_toString (Suc 0) = ''1''"
    by (simp add: Number_toString.simps)
  have B: "binary64 (binary64 (1 / 2) * 50) = 25"
    by code_simp
  show ?thesis
    using skill_component_double [of react_graphql_job react_profile "prefs_min None"]
    by (simp add: M T N B prod_eq_iff)
qed

text \<open>
  C2. For every profile, preferences and job, the score returned by the four-factor
  formula is an integer between 0 and 100.
\<close>

theorem matchScore_in_0_100:
  "\<exists>n::int. matchScore (jobsWithScores p prefs j) = Fin (of_int n) \<and> 0 \<le> n \<and> n \<le> 100"
proof -
  obtain x where x:
    "fst (remoteStep prefs j (locationStep prefs j (roleStep prefs j (double_skill_component p j))))
       = Fin x"
    "0 \<le> x" "x \<le> 100"
    using pre_round_bounds by blast
  show ?thesis
    unfolding jobsWithScores_unfold using Math_round_bounds [OF x(2) x(3)] by (simp add: x(1))
qed

text \<open>The full match of the specification's second scenario scores exactly 100.\<close>

theorem matchScore_in_0_100_witness:
  "matchScore (jobsWithScores fullstack_profile fullstack_prefs fullstack_job) = Fin 100
   \<and> (\<exists>n::int. matchScore (jobsWithScores fullstack_profile fullstack_prefs fullstack_job)
          = Fin (of_int n) \<and> 0 \<le> n \<and> n \<le> 100)"
proof -
  have "matchScore (jobsWithScores fullstack_profile fullstack_prefs fullstack_job) = Fin 100"
    by code_simp
  with matchScore_in_0_100 [of fullstack_profile fullstack_prefs fullstack_job]
  show ?thesis by simp
qed

text \<open>
  C3 states that the recommended flag is \<open>score >= profile.minMatchScore\<close>, a stored
  threshold of 0 included. Two inputs where the handlers decide otherwise: with a stored
  threshold of 0 a job scoring 25 is filtered out of the recommendations, and with a
  stored threshold of 80 the AI match endpoint flags a score of 75 as recommended.
\<close>

theorem recommended_threshold_counterexample:
  "minMatchScore (prefs_min (Some 0)) = Some 0
   \<and> matchScore (jobsWithScores react_profile (prefs_min (Some 0)) react_graphql_job) = Fin 25
   \<and> num_ge (Fin 25) (Fin 0)
   \<and> \<not> passesFilter (prefs_min (Some 0))
          (jobsWithScores react_profile (prefs_min (Some 0)) react_graphql_job)
   \<and> minMatchScore (prefs_min (Some 80)) = Some 80
   \<and> finalMatchScore fullstack_profile rust_job None = Fin 75
   \<and> \<not> num_ge (Fin 75) (Fin 80)
   \<and> isRecommended fullstack_profile (prefs_min (Some 80)) rust_job None"
  by code_simp

text \<open>
  C3 (amended). In the recommendations path a scored job passes the filter exactly when
  its score is at least the threshold, and the threshold is 50 when the profile's
  \<open>minMatchScore\<close> is unset and the stored value when that is set and not 0. In the AI
  match endpoint \<open>isRecommended\<close> is \<open>finalMatchScore >= 50\<close>, whatever the stored
  \<open>minMatchScore\<close>.
\<close>

theorem recommended_threshold_amended:
  "(minMatchScore prefs = None \<longrightarrow>
      passesFilter prefs (jobsWithScores p prefs j)
        = num_ge (matchScore (jobsWithScores p prefs j)) (Fin 50))
   \<and> (\<forall>n. minMatchScore prefs = Some n \<and> n \<noteq> 0 \<longrightarrow>
      passesFilter prefs (jobsWithScores p prefs j)
        = num_ge (matchScore (jobsWithScores p prefs j)) (Fin (of_int n)))
   \<and> isRecommended p prefs j a = num_ge (finalMatchScore p j a) (Fin 50)"
  by (simp add: passesFilter_def minMatchScore_or_50_def isRecommended_def)

text \<open>A score of 25 against no threshold (50) and against a stored threshold of 20.\<close>

theorem recommended_threshold_amended_witness:
  "minMatchScore (prefs_min None) = None
   \<and> \<not> passesFilter (prefs_min None)
          (jobsWithScores react_profile (prefs_min None) react_graphql_job)
   \<and> minMatchScore (prefs_min (Some 20)) = Some 20 \<and> (20::int) \<noteq> 0
   \<and> passesFilter (prefs_min (Some 20))
          (jobsWithScores react_profile (prefs_min (Some 20)) react_graphql_job)
   \<and> isRecommended fullstack_profile (prefs_min (Some 80)) rust_job None"
proof -
  have a: "minMatchScore (prefs_min None) = None" "minMatchScore (prefs_min (Some 20)) = Some 20"
    by (simp_all add: prefs_min_def)
  have s: "matchScore (jobsWithScores react_profile (prefs_min None) react_graphql_job) = Fin 25"
    "matchScore (jobsWithScores react_profile (prefs_min (Some 20)) react_graphql_job) = Fin 25"
    "finalMatchScore fullstack_profile rust_job None = Fin 75"
    by code_simp+
  show ?thesis
    using recommended_threshold_amended [of "prefs_min None" react_profile react_graphql_job None]
      recommended_threshold_amended [of "prefs_min (Some 20)" react_profile react_graphql_job None]
      recommended_threshold_amended [of "prefs_min (Some 80)" fullstack_profile rust_job None]
    by (simp add: a s)
qed

text \<open>
  C4. The four-factor score is defined for every input: it is a finite integer, never
  \<open>NaN\<close>. The handler reads the optional fields only through \<^verbatim>\<open>?.\<close>, a truthiness
  test or \<^verbatim>\<open>===\<close>, none of which throws, and divides only under the guard
  \<^verbatim>\<open>jobSkills.length > 0\<close>. An empty candidate-skill list and an empty
  required-skill list leave score and reasons unchanged in the skill block, an unset
  job location leaves them unchanged in the location block, and an unset remote
  preference leaves them unchanged in the remote block.
\<close>

theorem scoring_total_zero_on_edge_cases:
  "(\<exists>n::int. matchScore (jobsWithScores p prefs j) = Fin (of_int n))
   \<and> (skills p = [] \<longrightarrow>
        skillStep (lowerAll (skillsRequired j))
          (matchingSkills (lowerAll (skills p)) (lowerAll (skillsRequired j))) acc = acc)
   \<and> (skillsRequired j = [] \<longrightarrow>
        skillStep (lowerAll (skillsRequired j))
          (matchingSkills (lowerAll (skills p)) (lowerAll (skillsRequired j))) acc = acc)
   \<and> (location j = None \<longrightarrow> locationStep prefs j acc = acc)
   \<and> (remotePreference prefs = None \<longrightarrow> remoteStep prefs j acc = acc)"
proof (intro conjI impI)
  obtain x where
    "fst (remoteStep prefs j (locationStep prefs j (roleStep prefs j (double_skill_component p j))))
       = Fin x"
    using pre_round_bounds by blast
  then show "\<exists>n::int. matchScore (jobsWithScores p prefs j) = Fin (of_int n)"
    unfolding jobsWithScores_unfold by simp
next
  assume "skills p = []"
  then show "skillStep (lowerAll (skillsRequired j))
          (matchingSkills (lowerAll (skills p)) (lowerAll (skillsRequired j))) acc = acc"
    by (simp add: skillStep_def lowerAll_def matchingSkills_no_userSkills length_div_def
        binary64_0 num_add_zero_right)
next
  assume "skillsRequired j = []"
  then show "skillStep (lowerAll (skillsRequired j))
          (matchingSkills (lowerAll (skills p)) (lowerAll (skillsRequired j))) acc = acc"
    by (simp add: skillStep_def lowerAll_def)
next
  assume "location j = None"
  then have "\<not> locationMatches prefs j"
    by (simp add: locationMatches_def list_ex_iff split: option.splits)
  then show "locationStep prefs j acc = acc"
    by (simp add: locationStep_def)
next
  assume "remotePreference prefs = None"
  then show "remoteStep prefs j acc = acc"
    by (simp add: remoteStep_def remoteMatches_def)
qed

text \<open>
  No candidate skills against two required skills, and one candidate skill against a job
  with no required skill, no location and no remote type: the score is 0, without a
  reason.
\<close>

theorem scoring_total_zero_on_edge_cases_witness:
  "skills empty_profile = [] \<and> skillsRequired bare_job = [] \<and> location bare_job = None
   \<and> remotePreference (prefs_min None) = None
   \<and> skillStep (lowerAll (skillsRequired react_graphql_job))
        (matchingSkills (lowerAll (skills empty_profile))
           (lowerAll (skillsRequired react_graphql_job))) (Fin 0, []) = (Fin 0, [])
   \<and> skillStep (lowerAll (skillsRequired bare_job))
        (matchingSkills (lowerAll (skills react_profile))
           (lowerAll (skillsRequired bare_job))) (Fin 0, []) = (Fin 0, [])
   \<and> locationStep (prefs_min None) bare_job (Fin 0, []) = (Fin 0, [])
   \<and> remoteStep (prefs_min None) bare_job (Fin 0, []) = (Fin 0, [])
   \<and> jobsWithScores empty_profile (prefs_min None) react_graphql_job
       = \<lparr>matchScore = Fin 0, matchReasons = []\<rparr>
   \<and> jobsWithScores react_profile (prefs_min None) bare_job
       = \<lparr>matchScore = Fin 0, matchReasons = []\<rparr>"
proof -
  have a: "skills empty_profile = []" "skillsRequired bare_job = []" "location bare_job = None"
    "remotePreference (prefs_min None) = None"
    by (simp_all add: empty_profile_def bare_job_def prefs_min_def)
  have v: "jobsWithScores empty_profile (prefs_min None) react_graphql_job
       = \<lparr>matchScore = Fin 0, matchReasons = []\<rparr>"
    "jobsWithScores react_profile (prefs_min None) bare_job
       = \<lparr>matchScore = Fin 0, matchReasons = []\<rparr>"
    by code_simp+
  show ?thesis
    using scoring_total_zero_on_edge_cases
            [of empty_profile "prefs_min None" react_graphql_job "(Fin 0, [])"]
          scoring_total_zero_on_edge_cases
            [of react_profile "prefs_min None" bare_job "(Fin 0, [])"]
    by (simp add: a v)
qed

text \<open>
  C5. One candidate skill \<open>c\<close> matches one job skill \<open>j\<close> exactly when, after
  lowercasing, \<open>c\<close> contains \<open>j\<close> or \<open>j\<close> contains \<open>c\<close>; the relation is symmetric;
  "React.js" matches "React" and "React" matches "React.js".
\<close>

theorem skill_match_symmetric_substring:
  "(matchingSkills (lowerAll [c]) (lowerAll [j]) \<noteq> []
      \<longleftrightarrow> sublist (toLowerCase j) (toLowerCase c) \<or> sublist (toLowerCase c) (toLowerCase j))
   \<and> (matchingSkills (lowerAll [c]) (lowerAll [j]) \<noteq> []
      \<longleftrightarrow> matchingSkills (lowerAll [j]) (lowerAll [c]) \<noteq> [])
   \<and> matchingSkills (lowerAll [''React.js'']) (lowerAll [''React'']) = [''react'']
   \<and> matchingSkills (lowerAll [''React'']) (lowerAll [''React.js'']) = [''react.js'']"
proof (intro conjI)
  show "matchingSkills (lowerAll [''React.js'']) (lowerAll [''React'']) = [''react'']"
    by code_simp
  show "matchingSkills (lowerAll [''React'']) (lowerAll [''React.js'']) = [''react.js'']"
    by code_simp
qed (auto simp: matchingSkills_lower)



text \<open>
  C8. The skill-ratio formula of the job listing, job detail and application handlers
  and the four-factor formula of the recommendations handler differ on some input: one
  matching skill out of two gives 50 with the first and 25 with the second.
\<close>

theorem two_formulas_differ:
  "jobsWithMatchScore react_profile react_graphql_job = Fin 50
   \<and> detail_matchScore (Some react_profile) react_graphql_job = Some (Fin 50)
   \<and> apply_matchScore (Some react_profile) react_graphql_job = Fin 50
   \<and> matchScore (jobsWithScores react_profile (prefs_min None) react_graphql_job) = Fin 25
   \<and> (\<exists>p prefs j.
        jobsWithMatchScore p j \<noteq> matchScore (jobsWithScores p prefs j)
        \<and> detail_matchScore (Some p) j \<noteq> Some (matchScore (jobsWithScores p prefs j))
        \<and> apply_matchScore (Some p) j \<noteq> matchScore (jobsWithScores p prefs j))"
proof -
  have v: "jobsWithMatchScore react_profile react_graphql_job = Fin 50"
    "detail_matchScore (Some react_profile) react_graphql_job = Some (Fin 50)"
    "apply_matchScore (Some react_profile) react_graphql_job = Fin 50"
    "matchScore (jobsWithScores react_profile (prefs_min None) react_graphql_job) = Fin 25"
    by code_simp+
  have "jobsWithMatchScore react_profile react_graphql_job
          \<noteq> matchScore (jobsWithScores react_profile (prefs_min None) react_graphql_job)
        \<and> detail_matchScore (Some react_profile) react_graphql_job
          \<noteq> Some (matchScore (jobsWithScores react_profile (prefs_min None) react_graphql_job))
        \<and> apply_matchScore (Some react_profile) react_graphql_job
          \<noteq> matchScore (jobsWithScores react_profile (prefs_min None) react_graphql_job)"
    by (simp add: v)
  then have "\<exists>p prefs j.
        jobsWithMatchScore p j \<noteq> matchScore (jobsWithScores p prefs j)
        \<and> detail_matchScore (Some p) j \<noteq> Some (matchScore (jobsWithScores p prefs j))
        \<and> apply_matchScore (Some p) j \<noteq> matchScore (jobsWithScores p prefs j)"
    by blast
  with v show ?thesis by simp
qed

text \<open>
  C9. The skill-ratio score is an integer between 0 and 100 for every input, at each of
  its call sites: the matching skills are a filtered sublist of the job's skills, so
  \<open>M <= T\<close>, and the score is 0 when the job lists no skill.
\<close>

theorem skill_ratio_score_in_0_100:
  "(\<exists>n::int. skillRatioScore u js = Fin (of_int n) \<and> 0 \<le> n \<and> n \<le> 100)
   \<and> length (matchingSkills u js) \<le> length js
   \<and> skillRatioScore u [] = Fin 0
   \<and> (\<exists>n::int. jobsWithMatchScore p j = Fin (of_int n) \<and> 0 \<le> n \<and> n \<le> 100)
   \<and> (\<exists>n::int. detail_matchScore (Some p) j = Some (Fin (of_int n)) \<and> 0 \<le> n \<and> n \<le> 100)
   \<and> (\<exists>n::int. apply_matchScore po j = Fin (of_int n) \<and> 0 \<le> n \<and> n \<le> 100)
   \<and> (\<exists>n::int. skillScore p j = Fin (of_int n) \<and> 0 \<le> n \<and> n \<le> 100)"
proof (intro conjI)
  show "\<exists>n::int. apply_matchScore po j = Fin (of_int n) \<and> 0 \<le> n \<and> n \<le> 100"
  proof (cases po)
    case None
    then show ?thesis by (simp add: apply_matchScore_def)
  next
    case (Some a)
    then show ?thesis by (simp add: apply_matchScore_def skillRatioScore_bounds)
  qed
next
  show "skillRatioScore u [] = Fin 0"
    by (simp add: skillRatioScore_def)
qed (simp_all add: skillRatioScore_bounds length_matchingSkills_le
      jobsWithMatchScore_def detail_matchScore_def skillScore_def)

text \<open>Three matching skills out of four: 75.\<close>

theorem skill_ratio_score_in_0_100_witness:
  "skillRatioScore (lowerAll (skills fullstack_profile)) (lowerAll (skillsRequired rust_job))
     = Fin 75
   \<and> length (matchingSkills (lowerAll (skills fullstack_profile))
               (lowerAll (skillsRequired rust_job))) = 3
   \<and> (\<exists>n::int. skillRatioScore (lowerAll (skills fullstack_profile))
                  (lowerAll (skillsRequired rust_job)) = Fin (of_int n) \<and> 0 \<le> n \<and> n \<le> 100)"
proof -
  have "skillRatioScore (lowerAll (skills fullstack_profile)) (lowerAll (skillsRequired rust_job))
     = Fin 75"
    "length (matchingSkills (lowerAll (skills fullstack_profile))
               (lowerAll (skillsRequired rust_job))) = 3"
    by code_simp+
  with skill_ratio_score_in_0_100
         [of "lowerAll (skills fullstack_profile)" "lowerAll (skillsRequired rust_job)"
             fullstack_profile rust_job None]
  show ?thesis by simp
qed

text \<open>
  C10. With \<open>minMatchScore\<close> stored as 0 the threshold \<^verbatim>\<open>prefs.minMatchScore || 50\<close>
  is 50: a job scoring between 1 and 49 reaches the stored threshold 0, fails the filter
  and is not among the recommendations.
\<close>

theorem zero_threshold_filtered_at_50:
  "minMatchScore prefs = Some 0 \<Longrightarrow>
   matchScore (jobsWithScores p prefs j) = Fin (of_int n) \<Longrightarrow> 1 \<le> n \<Longrightarrow> n \<le> 49 \<Longrightarrow>
   minMatchScore_or_50 prefs = 50
   \<and> num_ge (matchScore (jobsWithScores p prefs j)) (Fin 0)
   \<and> \<not> passesFilter prefs (jobsWithScores p prefs j)
   \<and> jobsWithScores p prefs j \<notin> set (filteredJobs p prefs limit jobs)"
proof -
  assume a: "minMatchScore prefs = Some 0" "matchScore (jobsWithScores p prefs j) = Fin (of_int n)"
    "1 \<le> n" "n \<le> 49"
  have t: "minMatchScore_or_50 prefs = 50"
    using a(1) by (simp add: minMatchScore_or_50_def)
  have np: "\<not> passesFilter prefs (jobsWithScores p prefs j)"
    using a(2,4) by (simp add: passesFilter_def t)
  have "jobsWithScores p prefs j \<notin> set (filteredJobs p prefs limit jobs)"
    using np filteredJobs_subset [of p prefs limit jobs] by blast
  with t np a(2,3) show ?thesis by simp
qed

text \<open>A job scoring 25 for a profile whose stored threshold is 0.\<close>

theorem zero_threshold_filtered_at_50_witness:
  "minMatchScore (prefs_min (Some 0)) = Some 0
   \<and> matchScore (jobsWithScores react_profile (prefs_min (Some 0)) react_graphql_job)
       = Fin (of_int 25)
   \<and> minMatchScore_or_50 (prefs_min (Some 0)) = 50
   \<and> jobsWithScores react_profile (prefs_min (Some 0)) react_graphql_job
       \<notin> set (filteredJobs react_profile (prefs_min (Some 0)) 10 [react_graphql_job])
   \<and> filteredJobs react_profile (prefs_min (Some 0)) 10 [react_graphql_job] = []"
proof -
  have a: "minMatchScore (prefs_min (Some 0)) = Some 0"
    by (simp add: prefs_min_def)
  have s: "matchScore (jobsWithScores react_profile (prefs_min (Some 0)) react_graphql_job)
       = Fin (of_int 25)"
    by code_simp
  have e: "filteredJobs react_profile (prefs_min (Some 0)) 10 [react_graphql_job] = []"
    by code_simp
  have "(1::int) \<le> 25" "(25::int) \<le> 49" by simp_all
  from zero_threshold_filtered_at_50 [OF a s this, of 10 "[react_graphql_job]"] s e
  show ?thesis
    by (simp add: a)
qed

end
